theory Spec2Isabelle
  imports Complex_Main "HOL-Library.Sublist"
begin

section \<open>Python values used by trading\_bot.py\<close>

text \<open>
  Exceptions are values. Every exception below is a subclass of Python's \<open>Exception\<close>, so
  an \<open>except Exception\<close> clause catches each of them. \<open>Exception msg\<close> is the plain
  \<open>raise Exception(msg)\<close> of the source; \<open>ClientError msg\<close> stands for whatever the
  exchange client raises inside one of its calls.
\<close>

datatype exn =
    Exception string
  | KeyError string
  | IndexError
  | TypeError
  | ValueError
  | ZeroDivisionError
  | OverflowError
  | ClientError string

text \<open>Sequencing of statements that may raise: the first exception ends the block.\<close>

definition and_then :: "exn + 'a \<Rightarrow> ('a \<Rightarrow> exn + 'b) \<Rightarrow> exn + 'b" where
  "and_then r f = (case r of Inl e \<Rightarrow> Inl e | Inr v \<Rightarrow> f v)"

subsection \<open>Text\<close>

text \<open>
  A Python \<open>str\<close> is modelled as a \<open>string\<close>; the model follows Python on ASCII text.
  \<open>is_space\<close> is the whitespace of \<open>str.strip()\<close>, of \<open>\s\<close> and of \<open>float()\<close>:
  tab, line feed, vertical tab, form feed, carriage return, the separators 0x1C to 0x1F, and
  the blank.
\<close>

definition is_space :: "char \<Rightarrow> bool" where
  "is_space c \<longleftrightarrow> c \<in> set [CHR 0x09, CHR 0x0A, CHR 0x0B, CHR 0x0C, CHR 0x0D,
                              CHR 0x1C, CHR 0x1D, CHR 0x1E, CHR 0x1F, CHR 0x20]"

definition is_digit :: "char \<Rightarrow> bool" where
  "is_digit c \<longleftrightarrow> c \<in> set ''0123456789''"

text \<open>The class \<open>[\d.]\<close>.\<close>

definition is_digit_dot :: "char \<Rightarrow> bool" where
  "is_digit_dot c \<longleftrightarrow> is_digit c \<or> c = CHR ''.''"

text \<open>The class \<open>[A-Z0-9]\<close>.\<close>

definition is_AZ09 :: "char \<Rightarrow> bool" where
  "is_AZ09 c \<longleftrightarrow> c \<in> set ''ABCDEFGHIJKLMNOPQRSTUVWXYZ0123456789''"

definition upper_char :: "char \<Rightarrow> char" where
  "upper_char c =
     (case map_of (zip ''abcdefghijklmnopqrstuvwxyz'' ''ABCDEFGHIJKLMNOPQRSTUVWXYZ'') c of
        Some u \<Rightarrow> u
      | None \<Rightarrow> c)"

text \<open>\<open>str.upper()\<close> and \<open>str.strip()\<close>.\<close>

definition upper :: "string \<Rightarrow> string" where
  "upper s = map upper_char s"

definition strip :: "string \<Rightarrow> string" where
  "strip s = rev (dropWhile is_space (rev (dropWhile is_space s)))"

text \<open>The operator \<open>sub in s\<close> on two strings.\<close>

fun str_contains :: "string \<Rightarrow> string \<Rightarrow> bool" where
  "str_contains sub [] = (sub = [])"
| "str_contains sub (c # cs) = (prefix sub (c # cs) \<or> str_contains sub cs)"

subsection \<open>Floats\<close>

text \<open>
  A Python \<open>float\<close> is an IEEE 754 double: a finite value (a rational that a double
  holds exactly), an infinity, or a NaN. The sign of zero is not modelled: it shows only in
  the text of \<open>str(x)\<close>. \<open>fl\<close> rounds a rational to the nearest double, ties to the even
  significand, with gradual underflow below \<open>2^-1022\<close> and overflow to an infinity.
\<close>

datatype pyfloat = Fin rat | PInf | NInf | NaN

text \<open>The number of binary digits of a positive integer (\<open>int.bit_length()\<close>).\<close>

function bit_length :: "int \<Rightarrow> nat" where
  "bit_length n = (if n \<le> 0 then 0 else Suc (bit_length (n div 2)))"
  by auto
termination
  by (relation "measure nat") auto

declare bit_length.simps [simp del]

definition pow2 :: "int \<Rightarrow> rat" where
  "pow2 k = (if 0 \<le> k then 2 ^ nat k else 1 / 2 ^ nat (- k))"

text \<open>For \<open>x > 0\<close>: the integer \<open>e\<close> with \<open>2^e \<le> x < 2^(e+1)\<close>.\<close>

definition floor_log2 :: "rat \<Rightarrow> int" where
  "floor_log2 x =
     (let (p, q) = quotient_of x;
          d = int (bit_length p) - int (bit_length q)
      in if pow2 d \<le> x then d else d - 1)"

definition round_half_even :: "rat \<Rightarrow> int" where
  "round_half_even x =
     (let f = \<lfloor>x\<rfloor>; d = x - of_int f
      in if d < 1 / 2 then f
         else if 1 / 2 < d then f + 1
         else if even f then f else f + 1)"

definition fl :: "rat \<Rightarrow> pyfloat" where
  "fl x =
     (if x = 0 then Fin 0
      else
        let e = max (floor_log2 \<bar>x\<bar>) (- 1022);
            ulp = pow2 (e - 52);
            r = of_int (round_half_even (x / ulp)) * ulp
        in if pow2 1024 \<le> \<bar>r\<bar> then (if 0 < x then PInf else NInf) else Fin r)"

fun fsign :: "pyfloat \<Rightarrow> int" where
  "fsign (Fin r) = (if 0 < r then 1 else if r < 0 then - 1 else 0)"
| "fsign PInf = 1"
| "fsign NInf = - 1"
| "fsign NaN = 0"

definition inf_of_sign :: "int \<Rightarrow> pyfloat" where
  "inf_of_sign s = (if s = 0 then NaN else if 0 < s then PInf else NInf)"

text \<open>\<open>x * y\<close> on floats: never raises; an overflow gives an infinity.\<close>

fun fmul :: "pyfloat \<Rightarrow> pyfloat \<Rightarrow> pyfloat" where
  "fmul NaN y = NaN"
| "fmul x NaN = NaN"
| "fmul (Fin a) (Fin b) = fl (a * b)"
| "fmul x y = inf_of_sign (fsign x * fsign y)"

text \<open>
  \<open>x / y\<close> on floats raises \<open>ZeroDivisionError\<close> when \<open>y\<close> is zero, whatever \<open>x\<close> is;
  otherwise it is the IEEE quotient.
\<close>

fun fdiv :: "pyfloat \<Rightarrow> pyfloat \<Rightarrow> pyfloat" where
  "fdiv NaN y = NaN"
| "fdiv x NaN = NaN"
| "fdiv (Fin a) (Fin b) = fl (a / b)"
| "fdiv (Fin a) y = Fin 0"
| "fdiv x (Fin b) = inf_of_sign (fsign x * fsign (Fin b))"
| "fdiv x y = NaN"

definition truediv :: "pyfloat \<Rightarrow> pyfloat \<Rightarrow> exn + pyfloat" where
  "truediv x y = (if y = Fin 0 then Inl ZeroDivisionError else Inr (fdiv x y))"

text \<open>
  \<open>round(x, 6)\<close>: the decimal with six fractional digits nearest to the exact value of
  \<open>x\<close> (ties to the even digit), converted back to a double; an infinity or a NaN is
  returned as it is.
\<close>

fun round6 :: "pyfloat \<Rightarrow> pyfloat" where
  "round6 (Fin r) = fl (of_int (round_half_even (r * 1000000)) / 1000000)"
| "round6 x = x"

text \<open>The comparisons \<open>x > 0\<close> and \<open>x == 0\<close>.\<close>

fun gt_zero :: "pyfloat \<Rightarrow> bool" where
  "gt_zero (Fin r) = (0 < r)"
| "gt_zero PInf = True"
| "gt_zero x = False"

definition eq_zero :: "pyfloat \<Rightarrow> bool" where
  "eq_zero x \<longleftrightarrow> x = Fin 0"

text \<open>An \<open>int\<close> operand of float arithmetic is converted first; a too large one raises.\<close>

definition float_of_int :: "int \<Rightarrow> exn + pyfloat" where
  "float_of_int n = (case fl (of_int n) of Fin r \<Rightarrow> Inr (Fin r) | _ \<Rightarrow> Inl OverflowError)"

subsection \<open>Reading numbers from text\<close>

definition digit_val :: "char \<Rightarrow> int" where
  "digit_val c = int (length (takeWhile (\<lambda>d. d \<noteq> c) ''0123456789''))"

definition int_of_digits :: "string \<Rightarrow> int" where
  "int_of_digits ds = foldl (\<lambda>a c. 10 * a + digit_val c) 0 ds"

definition is_digit_us :: "char \<Rightarrow> bool" where
  "is_digit_us c \<longleftrightarrow> is_digit c \<or> c = CHR ''_''"

text \<open>
  A digit part is a run of digits in which single underscores may stand between two
  digits.
\<close>

definition valid_digitpart :: "string \<Rightarrow> bool" where
  "valid_digitpart ch \<longleftrightarrow>
     ch \<noteq> [] \<and> is_digit (hd ch) \<and> is_digit (last ch) \<and> \<not> str_contains ''__'' ch"

definition split_sign :: "string \<Rightarrow> bool \<times> string" where
  "split_sign s =
     (case s of
        c # cs \<Rightarrow> if c = CHR ''-'' then (True, cs) else if c = CHR ''+'' then (False, cs)
                  else (False, s)
      | [] \<Rightarrow> (False, s))"

text \<open>
  \<open>int(s)\<close> on a string, base ten: surrounding whitespace, a sign, a digit part. (The
  interpreter's optional limit on the length of the digit string is not modelled.)
\<close>

definition int_of_str :: "string \<Rightarrow> exn + int" where
  "int_of_str s =
     (let (neg, ds) = split_sign (strip s)
      in if list_all is_digit_us ds \<and> valid_digitpart ds
         then Inr ((if neg then - 1 else 1) * int_of_digits (filter is_digit ds))
         else Inl ValueError)"

text \<open>
  The exponent part of a float literal: nothing, or \<open>e\<close>/\<open>E\<close>, a sign and a digit part.
\<close>

definition exponent_of :: "string \<Rightarrow> int option" where
  "exponent_of s =
     (case s of
        [] \<Rightarrow> Some 0
      | c # cs \<Rightarrow>
          if c = CHR ''e'' \<or> c = CHR ''E'' then
            (let (neg, ds) = split_sign cs
             in if list_all is_digit_us ds \<and> valid_digitpart ds
                then Some ((if neg then - 1 else 1) * int_of_digits (filter is_digit ds))
                else None)
          else None)"

definition pow10 :: "int \<Rightarrow> rat" where
  "pow10 k = (if 0 \<le> k then 10 ^ nat k else 1 / 10 ^ nat (- k))"

text \<open>
  The unsigned decimal number of a float literal: \<open>[digitpart] . digitpart\<close> or
  \<open>digitpart [.]\<close>, then the exponent. The result is the exact value.
\<close>

definition decimal_of :: "string \<Rightarrow> rat option" where
  "decimal_of s =
     (let ip = takeWhile is_digit_us s;
          r1 = dropWhile is_digit_us s;
          dot = (r1 \<noteq> [] \<and> hd r1 = CHR ''.'');
          fp = (if dot then takeWhile is_digit_us (tl r1) else []);
          r2 = (if dot then dropWhile is_digit_us (tl r1) else r1)
      in if (ip = [] \<or> valid_digitpart ip) \<and> (fp = [] \<or> valid_digitpart fp)
            \<and> ip @ fp \<noteq> []
         then (case exponent_of r2 of
                 None \<Rightarrow> None
               | Some ex \<Rightarrow>
                   Some (of_int (int_of_digits (filter is_digit (ip @ fp)))
                         * pow10 (ex - int (length (filter is_digit fp)))))
         else None)"

text \<open>
  \<open>float(s)\<close> on a string: surrounding whitespace, a sign, then \<open>inf\<close>, \<open>infinity\<close> or
  \<open>nan\<close> in any case, or a decimal number, which is rounded to the nearest double.
\<close>

definition float_of_str :: "string \<Rightarrow> exn + pyfloat" where
  "float_of_str s =
     (let (neg, body) = split_sign (strip s)
      in if upper body = ''INF'' \<or> upper body = ''INFINITY'' then Inr (if neg then NInf else PInf)
         else if upper body = ''NAN'' then Inr NaN
         else (case decimal_of body of
                 None \<Rightarrow> Inl ValueError
               | Some v \<Rightarrow> Inr (fl (if neg then - v else v))))"

section \<open>Regular expressions\<close>

text \<open>
  The patterns of the program use literals, a character class under \<open>+\<close> or \<open>*\<close>, an
  optional part, one capture group, sequence and alternation. Matching follows the
  backtracking order of Python's \<open>re\<close>: \<open>re_match r s\<close> lists every way in which
  \<open>r\<close> matches a prefix of \<open>s\<close>, the preferred one first (greedy repetition gives the
  longest run first; the left alternative comes before the right one). Each entry holds the
  captured groups and the text left after the match.
\<close>

datatype regex =
    Lit string
  | Plus "char \<Rightarrow> bool"
  | Star "char \<Rightarrow> bool"
  | Opt regex
  | Grp regex
  | Seq regex regex
  | Alt regex regex

fun star_rests :: "(char \<Rightarrow> bool) \<Rightarrow> string \<Rightarrow> string list" where
  "star_rests c [] = [[]]"
| "star_rests c (x # xs) = (if c x then star_rests c xs @ [x # xs] else [x # xs])"

definition plus_rests :: "(char \<Rightarrow> bool) \<Rightarrow> string \<Rightarrow> string list" where
  "plus_rests c s = (case s of [] \<Rightarrow> [] | x # xs \<Rightarrow> if c x then star_rests c xs else [])"

fun re_match :: "regex \<Rightarrow> string \<Rightarrow> (string list \<times> string) list" where
  "re_match (Lit l) s = (if prefix l s then [([], drop (length l) s)] else [])"
| "re_match (Plus c) s = map (Pair []) (plus_rests c s)"
| "re_match (Star c) s = map (Pair []) (star_rests c s)"
| "re_match (Opt r) s = re_match r s @ [([], s)]"
| "re_match (Grp r) s =
     map (\<lambda>(g, s'). (take (length s - length s') s # g, s')) (re_match r s)"
| "re_match (Seq a b) s =
     concat (map (\<lambda>(g, s'). map (\<lambda>(g', s''). (g @ g', s'')) (re_match b s')) (re_match a s))"
| "re_match (Alt a b) s = re_match a s @ re_match b s"

text \<open>
  \<open>re.search\<close>: the preferred match at the leftmost position that has one. The result is
  the list of captured groups, so \<open>group(1)\<close> is its head.
\<close>

fun re_search :: "regex \<Rightarrow> string \<Rightarrow> string list option" where
  "re_search r [] = (case re_match r [] of [] \<Rightarrow> None | m # ms \<Rightarrow> Some (fst m))"
| "re_search r (c # cs) =
     (case re_match r (c # cs) of [] \<Rightarrow> re_search r cs | m # ms \<Rightarrow> Some (fst m))"

definition group1 :: "string list \<Rightarrow> string" where
  "group1 gs = hd gs"

section \<open>TradingSignal and SignalParser.parse\_signal\<close>

record TradingSignal =
  direction :: string
  symbol :: string
  order_type :: string
  entry_price :: "pyfloat option"
  take_profit :: pyfloat
  stop_loss :: pyfloat
  leverage :: int
  risk_percentage :: pyfloat

text \<open>The patterns of \<open>parse_signal\<close>, in the order of the source.\<close>

text \<open>\<^verbatim>\<open>(LONG|SHORT)\<close>\<close>

definition direction_re :: regex where
  "direction_re = Grp (Alt (Lit ''LONG'') (Lit ''SHORT''))"

text \<open>\<^verbatim>\<open>([A-Z0-9]+)/USDT\<close>\<close>

definition symbol_re :: regex where
  "symbol_re = Seq (Grp (Plus is_AZ09)) (Lit ''/USDT'')"

text \<open>\<^verbatim>\<open>LIMIT ORDER\s+([\d.]+)\<close>\<close>

definition limit_re :: regex where
  "limit_re = Seq (Lit ''LIMIT ORDER'') (Seq (Plus is_space) (Grp (Plus is_digit_dot)))"

text \<open>\<^verbatim>\<open>LEVERAGE:\s*(\d+)X?\<close>\<close>

definition leverage_re :: regex where
  "leverage_re =
     Seq (Lit ''LEVERAGE:'') (Seq (Star is_space) (Seq (Grp (Plus is_digit)) (Opt (Lit ''X''))))"

text \<open>\<^verbatim>\<open>TP:\s*([\d.]+)\<close>\<close>

definition tp_re :: regex where
  "tp_re = Seq (Lit ''TP:'') (Seq (Star is_space) (Grp (Plus is_digit_dot)))"

text \<open>\<^verbatim>\<open>SL:\s*([\d.]+)\<close>\<close>

definition sl_re :: regex where
  "sl_re = Seq (Lit ''SL:'') (Seq (Star is_space) (Grp (Plus is_digit_dot)))"

text \<open>\<^verbatim>\<open>USE\s+(\d+)%\s+OF\s+CAPITAL\<close>\<close>

definition risk_re :: regex where
  "risk_re =
     Seq (Lit ''USE'') (Seq (Plus is_space) (Seq (Grp (Plus is_digit)) (Seq (Lit ''%'')
       (Seq (Plus is_space) (Seq (Lit ''OF'') (Seq (Plus is_space) (Lit ''CAPITAL'')))))))"

text \<open>
  The statements of the \<open>try\<close> block after the two mandatory fields, one function for each
  commented step of the source. Each takes the cleaned text and the signal built so far.
\<close>

definition parse_order_type :: "string \<Rightarrow> TradingSignal \<Rightarrow> exn + TradingSignal" where
  "parse_order_type text signal =
     (if str_contains ''LIMIT ORDER'' text then
        (let signal = signal\<lparr>order_type := ''LIMIT''\<rparr>
         in case re_search limit_re text of
              None \<Rightarrow> Inr signal
            | Some m \<Rightarrow>
                and_then (float_of_str (group1 m))
                  (\<lambda>p. Inr (signal\<lparr>entry_price := Some p\<rparr>)))
      else Inr (signal\<lparr>order_type := ''MARKET''\<rparr>))"

definition parse_leverage :: "string \<Rightarrow> TradingSignal \<Rightarrow> exn + TradingSignal" where
  "parse_leverage text signal =
     (case re_search leverage_re text of
        None \<Rightarrow> Inr signal
      | Some m \<Rightarrow> and_then (int_of_str (group1 m)) (\<lambda>n. Inr (signal\<lparr>leverage := n\<rparr>)))"

definition parse_take_profit :: "string \<Rightarrow> TradingSignal \<Rightarrow> exn + TradingSignal" where
  "parse_take_profit text signal =
     (case re_search tp_re text of
        None \<Rightarrow> Inr signal
      | Some m \<Rightarrow> and_then (float_of_str (group1 m)) (\<lambda>p. Inr (signal\<lparr>take_profit := p\<rparr>)))"

definition parse_stop_loss :: "string \<Rightarrow> TradingSignal \<Rightarrow> exn + TradingSignal" where
  "parse_stop_loss text signal =
     (case re_search sl_re text of
        None \<Rightarrow> Inr signal
      | Some m \<Rightarrow> and_then (float_of_str (group1 m)) (\<lambda>p. Inr (signal\<lparr>stop_loss := p\<rparr>)))"

definition parse_risk :: "string \<Rightarrow> TradingSignal \<Rightarrow> exn + TradingSignal" where
  "parse_risk text signal =
     (case re_search risk_re text of
        None \<Rightarrow> Inr signal
      | Some m \<Rightarrow>
          and_then (float_of_str (group1 m)) (\<lambda>p. Inr (signal\<lparr>risk_percentage := p\<rparr>)))"

text \<open>
  The \<open>try\<close> block of \<open>parse_signal\<close>. (The list \<open>lines\<close> that the source computes first is
  never read, and computing it cannot raise.) The new signal has the defaults of the
  dataclass.
\<close>

definition new_signal :: TradingSignal where
  "new_signal =
     \<lparr>direction = [], symbol = [], order_type = ''MARKET'', entry_price = None,
      take_profit = Fin 0, stop_loss = Fin 0, leverage = 10, risk_percentage = Fin 5\<rparr>"

definition clean :: "string \<Rightarrow> string" where
  "clean text = strip (upper text)"

definition parse_signal_try :: "string \<Rightarrow> exn + TradingSignal option" where
  "parse_signal_try text0 =
     (let text = clean text0; signal = new_signal
      in case re_search direction_re text of
           None \<Rightarrow> Inr None
         | Some dm \<Rightarrow>
             (let signal = signal\<lparr>direction := group1 dm\<rparr>
              in case re_search symbol_re text of
                   None \<Rightarrow> Inr None
                 | Some sm \<Rightarrow>
                     (let signal = signal\<lparr>symbol := group1 sm @ ''USDT''\<rparr>
                      in and_then (parse_order_type text signal) (\<lambda>signal.
                         and_then (parse_leverage text signal) (\<lambda>signal.
                         and_then (parse_take_profit text signal) (\<lambda>signal.
                         and_then (parse_stop_loss text signal) (\<lambda>signal.
                         and_then (parse_risk text signal) (\<lambda>signal.
                         Inr (Some signal)))))))))"

text \<open>
  \<open>parse_signal\<close>: the \<open>try\<close> block under \<open>except Exception\<close>, whose handler logs and
  returns \<open>None\<close>. The result type keeps the possibility of an exception leaving the
  function.
\<close>

definition parse_signal :: "string \<Rightarrow> exn + TradingSignal option" where
  "parse_signal text = (case parse_signal_try text of Inl e \<Rightarrow> Inr None | Inr r \<Rightarrow> Inr r)"

section \<open>The exchange client\<close>

text \<open>
  The client returns the decoded JSON answer of the exchange: \<open>None\<close>, a \<open>bool\<close>, an
  \<open>int\<close>, a \<open>float\<close>, a \<open>str\<close>, a \<open>list\<close> or a \<open>dict\<close> with string keys (an
  association list; a lookup takes the first binding of a key).
\<close>

datatype json =
    JNull
  | JBool bool
  | JInt int
  | JFloat pyfloat
  | JStr string
  | JList "json list"
  | JDict "(string \<times> json) list"

text \<open>\<open>not x\<close> is \<open>\<not> truthy x\<close>.\<close>

fun truthy :: "json \<Rightarrow> bool" where
  "truthy JNull = False"
| "truthy (JBool b) = b"
| "truthy (JInt n) = (n \<noteq> 0)"
| "truthy (JFloat f) = (f \<noteq> Fin 0)"
| "truthy (JStr s) = (s \<noteq> [])"
| "truthy (JList xs) = (xs \<noteq> [])"
| "truthy (JDict d) = (d \<noteq> [])"

text \<open>\<open>k in x\<close> for a string \<open>k\<close>.\<close>

fun contains_key :: "string \<Rightarrow> json \<Rightarrow> exn + bool" where
  "contains_key k (JDict d) = Inr (k \<in> fst ` set d)"
| "contains_key k (JList xs) = Inr (JStr k \<in> set xs)"
| "contains_key k (JStr s) = Inr (str_contains k s)"
| "contains_key k x = Inl TypeError"

text \<open>\<open>x[k]\<close> for a string \<open>k\<close>.\<close>

fun getitem :: "string \<Rightarrow> json \<Rightarrow> exn + json" where
  "getitem k (JDict d) = (case map_of d k of None \<Rightarrow> Inl (KeyError k) | Some v \<Rightarrow> Inr v)"
| "getitem k x = Inl TypeError"

text \<open>\<open>x[0]\<close>.\<close>

fun getitem0 :: "json \<Rightarrow> exn + json" where
  "getitem0 (JList []) = Inl IndexError"
| "getitem0 (JList (x # xs)) = Inr x"
| "getitem0 (JStr []) = Inl IndexError"
| "getitem0 (JStr (c # cs)) = Inr (JStr [c])"
| "getitem0 (JDict d) = Inl (KeyError ''0'')"
| "getitem0 x = Inl TypeError"

text \<open>The elements that \<open>for c in x\<close> visits.\<close>

fun iterate :: "json \<Rightarrow> exn + json list" where
  "iterate (JList xs) = Inr xs"
| "iterate (JDict d) = Inr (map JStr (remdups (map fst d)))"
| "iterate (JStr s) = Inr (map (\<lambda>c. JStr [c]) s)"
| "iterate x = Inl TypeError"

text \<open>\<open>x != 0\<close>.\<close>

fun ne_zero :: "json \<Rightarrow> bool" where
  "ne_zero (JInt n) = (n \<noteq> 0)"
| "ne_zero (JFloat f) = (f \<noteq> Fin 0)"
| "ne_zero (JBool b) = b"
| "ne_zero x = True"

text \<open>\<open>float(x)\<close>.\<close>

fun float_of :: "json \<Rightarrow> exn + pyfloat" where
  "float_of (JStr s) = float_of_str s"
| "float_of (JInt n) = float_of_int n"
| "float_of (JFloat f) = Inr f"
| "float_of (JBool b) = Inr (Fin (if b then 1 else 0))"
| "float_of x = Inl TypeError"

text \<open>
  A value of the order request: a string constant, or \<open>str(x)\<close> of a float \<open>x\<close>, kept as
  the float it renders.
\<close>

datatype param = Str string | StrFloat pyfloat

text \<open>
  The four calls that \<open>place_order\<close> makes on \<open>self.session\<close>. Each either raises or
  returns an answer. One run of \<open>place_order\<close> makes each call at most once and in a fixed
  order, so a function from the arguments of a call to its outcome covers a client with
  state.
\<close>

record session =
  client_set_leverage :: "string \<Rightarrow> int \<Rightarrow> exn + json"
  client_get_wallet_balance :: "exn + json"
  client_get_tickers :: "string \<Rightarrow> exn + json"
  client_place_order :: "(string \<rightharpoonup> param) \<Rightarrow> exn + json"

text \<open>The calls made on the client, in order.\<close>

datatype call =
    Set_leverage string int
  | Get_wallet_balance
  | Get_tickers string
  | Place_order "string \<rightharpoonup> param"

section \<open>BybitTrader\<close>

text \<open>\<open>get_account_balance\<close>: an exception of the client gives the empty dict.\<close>

definition get_account_balance :: "session \<Rightarrow> exn + json" where
  "get_account_balance v =
     (case client_get_wallet_balance v of Inl e \<Rightarrow> Inr (JDict []) | Inr result \<Rightarrow> Inr result)"

text \<open>\<open>set_leverage\<close>: an exception of the client, or of reading the answer, gives \<open>False\<close>.\<close>

definition set_leverage :: "session \<Rightarrow> string \<Rightarrow> int \<Rightarrow> exn + bool" where
  "set_leverage v symb lev =
     (case and_then (client_set_leverage v symb lev) (\<lambda>result.
           and_then (getitem ''retCode'' result) (\<lambda>rc. Inr (\<not> ne_zero rc))) of
        Inl e \<Rightarrow> Inr False
      | Inr ok \<Rightarrow> Inr ok)"

text \<open>
  The result of \<open>place_order\<close>: \<open>Placed ok result order_params\<close> is the dict with the keys
  \<open>success\<close>, \<open>result\<close> and \<open>order_params\<close>; \<open>Failed e\<close> is the dict with \<open>success\<close>
  false and \<open>error\<close> the text of the exception \<open>e\<close>.
\<close>

datatype order_result =
    Placed bool json "string \<rightharpoonup> param"
  | Failed exn

text \<open>The guard on the balance snapshot (lines 191 and 192).\<close>

definition check_balance :: "json \<Rightarrow> exn + unit" where
  "check_balance balance =
     (if \<not> truthy balance then Inl (Exception ''Could not fetch account balance'')
      else and_then (contains_key ''result'' balance) (\<lambda>has.
             if \<not> has then Inl (Exception ''Could not fetch account balance'')
             else Inr ()))"

text \<open>
  The loop over the coins (lines 195 to 199): \<open>usdt_balance\<close> starts at zero and takes
  the wallet balance of the first coin named \<open>USDT\<close>.
\<close>

fun find_usdt :: "json list \<Rightarrow> exn + pyfloat" where
  "find_usdt [] = Inr (Fin 0)"
| "find_usdt (coin # coins) =
     and_then (getitem ''coin'' coin) (\<lambda>name.
       if name = JStr ''USDT'' then and_then (getitem ''walletBalance'' coin) float_of
       else find_usdt coins)"

definition coin_list :: "json \<Rightarrow> exn + json list" where
  "coin_list balance =
     and_then (getitem ''result'' balance) (\<lambda>r.
     and_then (getitem ''list'' r) (\<lambda>l.
     and_then (getitem0 l) (\<lambda>account.
     and_then (getitem ''coin'' account) iterate)))"

definition usdt_balance_of :: "json \<Rightarrow> exn + pyfloat" where
  "usdt_balance_of balance = and_then (coin_list balance) find_usdt"

text \<open>Lines 190 to 202: the balance, or the exception raised on the way.\<close>

definition fetch_usdt_balance :: "session \<Rightarrow> exn + pyfloat" where
  "fetch_usdt_balance v =
     and_then (get_account_balance v) (\<lambda>balance.
     and_then (check_balance balance) (\<lambda>_.
     and_then (usdt_balance_of balance) (\<lambda>usdt_balance.
       if eq_zero usdt_balance then Inl (Exception ''No USDT balance found'')
       else Inr usdt_balance)))"

text \<open>\<open>float(ticker['result']['list'][0]['lastPrice'])\<close> (line 212).\<close>

definition last_price :: "json \<Rightarrow> exn + pyfloat" where
  "last_price ticker =
     and_then (getitem ''result'' ticker) (\<lambda>r.
     and_then (getitem ''list'' r) (\<lambda>l.
     and_then (getitem0 l) (\<lambda>t.
     and_then (getitem ''lastPrice'' t) float_of)))"

text \<open>Lines 209 to 212: the current price from the client's answer to \<open>get_tickers\<close>.\<close>

definition current_price_of :: "exn + json \<Rightarrow> exn + pyfloat" where
  "current_price_of answer =
     and_then answer (\<lambda>ticker.
     and_then (getitem ''retCode'' ticker) (\<lambda>rc.
       if ne_zero rc then Inl (Exception ''Could not fetch ticker data'')
       else last_price ticker))"

text \<open>
  Lines 208 to 213, on the signal and the calls made so far: a MARKET order asks for the ticker
  and stores the current price in the signal.
\<close>

definition resolve_price ::
  "session \<Rightarrow> TradingSignal \<Rightarrow> call list \<Rightarrow> (exn + unit) \<times> TradingSignal \<times> call list" where
  "resolve_price v signal calls =
     (if order_type signal = ''MARKET'' then
        (case current_price_of (client_get_tickers v (symbol signal)) of
           Inl e \<Rightarrow> (Inl e, signal, calls @ [Get_tickers (symbol signal)])
         | Inr current_price \<Rightarrow>
             (Inr (), signal\<lparr>entry_price := Some current_price\<rparr>,
              calls @ [Get_tickers (symbol signal)]))
      else (Inr (), signal, calls))"

text \<open>Line 205.\<close>

definition risk_amount_of :: "pyfloat \<Rightarrow> pyfloat \<Rightarrow> exn + pyfloat" where
  "risk_amount_of usdt_balance user_risk =
     and_then (truediv user_risk (Fin 100)) (\<lambda>x. Inr (fmul usdt_balance x))"

text \<open>
  Lines 216 to 219. The product is computed first; dividing by an entry price that is
  \<open>None\<close> raises \<open>TypeError\<close>.
\<close>

definition quantity_of :: "pyfloat \<Rightarrow> int \<Rightarrow> pyfloat option \<Rightarrow> exn + pyfloat" where
  "quantity_of risk_amount user_leverage price =
     and_then (float_of_int user_leverage) (\<lambda>lev.
       case price of
         None \<Rightarrow> Inl TypeError
       | Some p \<Rightarrow> and_then (truediv (fmul risk_amount lev) p) (\<lambda>qty. Inr (round6 qty)))"

text \<open>Lines 222 to 242: the order request.\<close>

definition order_params_of :: "TradingSignal \<Rightarrow> pyfloat \<Rightarrow> (string \<rightharpoonup> param)" where
  "order_params_of signal qty =
     (let side = (if direction signal = ''LONG'' then ''Buy'' else ''Sell'');
          order_params =
            [''category'' \<mapsto> Str ''linear'',
             ''symbol'' \<mapsto> Str (symbol signal),
             ''side'' \<mapsto> Str side,
             ''orderType'' \<mapsto> Str (if order_type signal = ''MARKET'' then ''Market'' else ''Limit''),
             ''qty'' \<mapsto> StrFloat qty,
             ''timeInForce'' \<mapsto> Str ''GTC''];
          order_params =
            (if order_type signal = ''LIMIT''
             then order_params(''price'' \<mapsto>
                    (case entry_price signal of Some p \<Rightarrow> StrFloat p | None \<Rightarrow> Str ''None''))
             else order_params);
          order_params =
            (if gt_zero (take_profit signal)
             then order_params(''takeProfit'' \<mapsto> StrFloat (take_profit signal))
             else order_params);
          order_params =
            (if gt_zero (stop_loss signal)
             then order_params(''stopLoss'' \<mapsto> StrFloat (stop_loss signal))
             else order_params)
      in order_params)"

text \<open>Lines 244 to 250: the answer of the client to the order becomes the result.\<close>

definition submitted :: "(string \<rightharpoonup> param) \<Rightarrow> exn + json \<Rightarrow> exn + order_result" where
  "submitted order_params answer =
     and_then answer (\<lambda>result.
     and_then (getitem ''retCode'' result) (\<lambda>rc.
       Inr (Placed (\<not> ne_zero rc) result order_params)))"

text \<open>
  The \<open>try\<close> block of \<open>place_order\<close>. It returns the value or the exception, the signal
  as the block leaves it (the signal is mutated in place), and the calls made on the
  client.
\<close>

definition place_order_try ::
  "session \<Rightarrow> TradingSignal \<Rightarrow> int \<Rightarrow> pyfloat
     \<Rightarrow> (exn + order_result) \<times> TradingSignal \<times> call list" where
  "place_order_try v signal user_leverage user_risk =
     (case set_leverage v (symbol signal) user_leverage of
        Inl e \<Rightarrow> (Inl e, signal, [Set_leverage (symbol signal) user_leverage])
      | Inr _ \<Rightarrow>
     (let calls = [Set_leverage (symbol signal) user_leverage, Get_wallet_balance]
      in case fetch_usdt_balance v of
           Inl e \<Rightarrow> (Inl e, signal, calls)
         | Inr usdt_balance \<Rightarrow>
     (case risk_amount_of usdt_balance user_risk of
        Inl e \<Rightarrow> (Inl e, signal, calls)
      | Inr risk_amount \<Rightarrow>
     (case resolve_price v signal calls of
        (Inl e, signal, calls) \<Rightarrow> (Inl e, signal, calls)
      | (Inr _, signal, calls) \<Rightarrow>
     (case quantity_of risk_amount user_leverage (entry_price signal) of
        Inl e \<Rightarrow> (Inl e, signal, calls)
      | Inr qty \<Rightarrow>
     (let order_params = order_params_of signal qty
      in (submitted order_params (client_place_order v order_params), signal,
          calls @ [Place_order order_params])))))))"

text \<open>
  \<open>place_order\<close>: the \<open>try\<close> block under \<open>except Exception\<close>, whose handler logs and
  returns the failure dict.
\<close>

definition place_order ::
  "session \<Rightarrow> TradingSignal \<Rightarrow> int \<Rightarrow> pyfloat
     \<Rightarrow> (exn + order_result) \<times> TradingSignal \<times> call list" where
  "place_order v signal user_leverage user_risk =
     (case place_order_try v signal user_leverage user_risk of
        (Inl e, signal', calls) \<Rightarrow> (Inr (Failed e), signal', calls)
      | (Inr r, signal', calls) \<Rightarrow> (Inr r, signal', calls))"

section \<open>Example data\<close>

text \<open>
  A client that accepts everything: the wallet answer is a parameter, the last price of
  every symbol is 50000, and every call returns code 0.
\<close>

definition demo_wallet :: "json list \<Rightarrow> json" where
  "demo_wallet coins =
     JDict [(''retCode'', JInt 0),
            (''result'', JDict [(''list'', JList [JDict [(''coin'', JList coins)]])])]"

definition demo_coin :: "string \<Rightarrow> string \<Rightarrow> json" where
  "demo_coin name amount = JDict [(''coin'', JStr name), (''walletBalance'', JStr amount)]"

definition demo_ticker :: json where
  "demo_ticker =
     JDict [(''retCode'', JInt 0),
            (''result'', JDict [(''list'', JList [JDict [(''lastPrice'', JStr ''50000'')]])])]"

definition demo_session :: "json \<Rightarrow> session" where
  "demo_session w =
     \<lparr>client_set_leverage = (\<lambda>s l. Inr (JDict [(''retCode'', JInt 0)])),
      client_get_wallet_balance = Inr w,
      client_get_tickers = (\<lambda>s. Inr demo_ticker),
      client_place_order = (\<lambda>ps. Inr (JDict [(''retCode'', JInt 0)]))\<rparr>"

text \<open>A wallet with 1 BTC and 1000 USDT, and a MARKET signal to go long on BTC.\<close>

definition demo_funded :: session where
  "demo_funded = demo_session (demo_wallet [demo_coin ''BTC'' ''1'', demo_coin ''USDT'' ''1000''])"

definition demo_signal :: TradingSignal where
  "demo_signal = new_signal\<lparr>direction := ''LONG'', symbol := ''BTCUSDT''\<rparr>"

definition demo_filled :: TradingSignal where
  "demo_filled = demo_signal\<lparr>entry_price := Some (Fin 50000)\<rparr>"

text \<open>Three wallets that hold no USDT to trade with.\<close>

definition demo_empty :: session where
  "demo_empty = demo_session (JDict [])"

definition demo_zero :: session where
  "demo_zero = demo_session (demo_wallet [demo_coin ''BTC'' ''1'', demo_coin ''USDT'' ''0''])"

definition demo_no_usdt :: session where
  "demo_no_usdt = demo_session (demo_wallet [demo_coin ''BTC'' ''1'', demo_coin ''ETH'' ''2''])"

section \<open>Paths through place\_order\<close>

lemma set_leverage_returns: "\<exists>ok. set_leverage v symb lev = Inr ok"
  by (auto simp add: set_leverage_def split: sum.splits)

lemma place_order_unfold:
  "place_order v s lev risk =
     (case place_order_try v s lev risk of (r, s', cs) \<Rightarrow>
        (Inr (case r of Inl e \<Rightarrow> Failed e | Inr x \<Rightarrow> x), s', cs))"
  by (simp add: place_order_def split: prod.splits sum.splits)

lemma truediv_100: "truediv x (Fin 100) = Inr (fdiv x (Fin 100))"
  by (simp add: truediv_def)

text \<open>When the balance cannot be had, the block ends after the second call.\<close>

lemma place_order_try_balance_fails:
  "fetch_usdt_balance v = Inl e \<Longrightarrow>
   place_order_try v s lev risk = (Inl e, s, [Set_leverage (symbol s) lev, Get_wallet_balance])"
  using set_leverage_returns [of v "symbol s" lev]
  by (auto simp: place_order_try_def)

text \<open>Every order handed to the client was sized from the balance and the entry price.\<close>

lemma place_order_try_request:
  assumes "place_order_try v s lev risk = (r, s', cs)" and "Place_order ps \<in> set cs"
  shows "\<exists>bal levf price.
           fetch_usdt_balance v = Inr bal
         \<and> float_of_int lev = Inr levf
         \<and> entry_price s' = Some price
         \<and> ps = order_params_of s'
                  (round6 (fdiv (fmul (fmul bal (fdiv risk (Fin 100))) levf) price))"
  using assms
  apply (simp add: place_order_try_def Let_def risk_amount_of_def truediv_100 and_then_def
      quantity_of_def split: sum.splits prod.splits option.splits)
  apply (auto simp: resolve_price_def truediv_def split: if_splits sum.splits)
  done

lemma place_order_try_result:
  assumes "place_order_try v s lev risk = (Inr res, s', cs)"
  shows "\<exists>ok answer ps. res = Placed ok answer ps \<and> Place_order ps \<in> set cs"
  using assms
  apply (simp add: place_order_try_def Let_def submitted_def and_then_def
      split: sum.splits prod.splits option.splits)
  apply auto
  done

lemma place_order_try_signal:
  assumes "place_order_try v s lev risk = (r, s', cs)"
  shows "s' = s \<or> (order_type s = ''MARKET'' \<and>
           (\<exists>p. current_price_of (client_get_tickers v (symbol s)) = Inr p
                \<and> s' = s\<lparr>entry_price := Some p\<rparr>))"
  using assms
  apply (simp add: place_order_try_def Let_def split: sum.splits prod.splits)
  apply (auto simp: resolve_price_def split: if_splits sum.splits)
  done

lemma place_order_try_market:
  assumes "place_order_try v s lev risk = (r, s', cs)" and "Place_order ps \<in> set cs"
    and "order_type s = ''MARKET''"
  shows "\<exists>p. current_price_of (client_get_tickers v (symbol s)) = Inr p
                \<and> entry_price s' = Some p"
  using assms
  apply (simp add: place_order_try_def Let_def split: sum.splits prod.splits)
  apply (auto simp: resolve_price_def split: if_splits sum.splits)
  done

lemma dom_order_params:
  "''takeProfit'' \<in> dom (order_params_of s q) \<longleftrightarrow> gt_zero (take_profit s)"
  "''stopLoss'' \<in> dom (order_params_of s q) \<longleftrightarrow> gt_zero (stop_loss s)"
  by (simp_all add: order_params_of_def Let_def dom_def)

lemma qty_order_params: "order_params_of s q ''qty'' = Some (StrFloat q)"
  by (simp add: order_params_of_def Let_def)

lemma coin_list_check: "coin_list b = Inr coins \<Longrightarrow> check_balance b = Inr ()"
proof (cases b)
  case (JDict d)
  assume "coin_list b = Inr coins"
  with JDict obtain r where "map_of d ''result'' = Some r"
    by (auto simp: coin_list_def and_then_def split: option.splits)
  then have "''result'' \<in> fst ` set d" and "d \<noteq> []"
    by (auto dest: map_of_SomeD simp: image_iff intro: bexI [of _ "(''result'', r)"])
  with JDict show ?thesis
    by (simp add: check_balance_def and_then_def)
qed (auto simp: coin_list_def and_then_def)

lemma find_usdt_none:
  "\<forall>c \<in> set coins. \<exists>name. getitem ''coin'' c = Inr name \<and> name \<noteq> JStr ''USDT''
   \<Longrightarrow> find_usdt coins = Inr (Fin 0)"
  by (induction coins) (auto simp: and_then_def)

subsection \<open>The example run\<close>

lemma float_1000: "float_of_str ''1000'' = Inr (Fin 1000)"
  by code_simp

lemma float_50000: "float_of_str ''50000'' = Inr (Fin 50000)"
  by code_simp

lemma demo_risk_amount: "risk_amount_of (Fin 1000) (Fin 5) = Inr (Fin 50)"
  by code_simp

lemma demo_quantity: "quantity_of (Fin 50) 10 (Some (Fin 50000)) = Inr (fl (1 / 100))"
  by code_simp

lemma demo_literal: "float_of_str ''0.01'' = Inr (fl (1 / 100))"
  by code_simp

lemma demo_coins:
  "coin_list (demo_wallet coins) = Inr coins" "check_balance (demo_wallet coins) = Inr ()"
  by (simp_all add: demo_wallet_def coin_list_def check_balance_def and_then_def)

lemma demo_balance: "fetch_usdt_balance demo_funded = Inr (Fin 1000)"
  by (simp add: fetch_usdt_balance_def get_account_balance_def demo_session_def demo_funded_def
      demo_coins usdt_balance_of_def demo_coin_def and_then_def float_1000 eq_zero_def)

lemma demo_price: "current_price_of (Inr demo_ticker) = Inr (Fin 50000)"
  by (simp add: current_price_of_def demo_ticker_def last_price_def and_then_def float_50000)

lemma demo_run:
  "place_order demo_funded demo_signal 10 (Fin 5) =
     (Inr (Placed True (JDict [(''retCode'', JInt 0)])
            (order_params_of demo_filled (fl (1 / 100)))),
      demo_filled,
      [Set_leverage ''BTCUSDT'' 10, Get_wallet_balance, Get_tickers ''BTCUSDT'',
       Place_order (order_params_of demo_filled (fl (1 / 100)))])"
proof -
  have sl: "set_leverage demo_funded ''BTCUSDT'' 10 = Inr True"
    by (simp add: set_leverage_def demo_session_def demo_funded_def and_then_def)
  have rp: "resolve_price demo_funded demo_signal cs =
      (Inr (), demo_filled, cs @ [Get_tickers ''BTCUSDT''])" for cs
    using demo_price
    by (simp add: resolve_price_def demo_signal_def new_signal_def demo_session_def
        demo_funded_def demo_filled_def)
  have sym: "symbol demo_signal = ''BTCUSDT''"
    by (simp add: demo_signal_def)
  have ep: "entry_price demo_filled = Some (Fin 50000)"
    by (simp add: demo_filled_def)
  have sub: "submitted ps (client_place_order demo_funded ps)
      = Inr (Placed True (JDict [(''retCode'', JInt 0)]) ps)" for ps
    by (simp add: submitted_def demo_session_def demo_funded_def and_then_def)
  show ?thesis
    by (simp add: place_order_def place_order_try_def sl sym ep demo_balance demo_risk_amount rp
        demo_quantity sub Let_def)
qed

section \<open>Properties of place\_order\<close>

text \<open>
  C7. In every order request that \<open>place_order\<close> hands to the client, the key
  \<open>takeProfit\<close> is present exactly when the signal's \<open>take_profit\<close> is greater than
  zero, and the key \<open>stopLoss\<close> exactly when its \<open>stop_loss\<close> is greater than zero;
  when both are 0 the request has neither key.
\<close>

theorem order_request_tp_sl:
  assumes "place_order v signal lev risk = (res, signal', cs)" and "Place_order ps \<in> set cs"
  shows "(''takeProfit'' \<in> dom ps \<longleftrightarrow> gt_zero (take_profit signal))
       \<and> (''stopLoss'' \<in> dom ps \<longleftrightarrow> gt_zero (stop_loss signal))
       \<and> (take_profit signal = Fin 0 \<and> stop_loss signal = Fin 0
            \<longrightarrow> ''takeProfit'' \<notin> dom ps \<and> ''stopLoss'' \<notin> dom ps)"
proof -
  obtain r where t: "place_order_try v signal lev risk = (r, signal', cs)"
    using assms(1) by (auto simp: place_order_unfold split: prod.splits)
  from place_order_try_request [OF t assms(2)] obtain q where ps: "ps = order_params_of signal' q"
    by blast
  from place_order_try_signal [OF t]
  have "take_profit signal' = take_profit signal" "stop_loss signal' = stop_loss signal"
    by auto
  with ps show ?thesis by (auto simp: dom_order_params simp del: dom_def)
qed

theorem order_request_tp_sl_witness:
  "take_profit demo_signal = Fin 0 \<and> stop_loss demo_signal = Fin 0
   \<and> ''takeProfit'' \<notin> dom (order_params_of demo_filled (fl (1 / 100)))
   \<and> ''stopLoss'' \<notin> dom (order_params_of demo_filled (fl (1 / 100)))"
proof -
  have tp: "take_profit demo_signal = Fin 0 \<and> stop_loss demo_signal = Fin 0"
    by (simp add: demo_signal_def new_signal_def)
  have "Place_order (order_params_of demo_filled (fl (1 / 100)))
     \<in> set [Set_leverage ''BTCUSDT'' 10, Get_wallet_balance, Get_tickers ''BTCUSDT'',
       Place_order (order_params_of demo_filled (fl (1 / 100)))]"
    by simp
  from order_request_tp_sl [OF demo_run this] tp show ?thesis by blast
qed

text \<open>
  C1. Whenever \<open>place_order\<close> returns the result of a submitted order, the \<open>qty\<close> of
  the request is \<open>round((balance * (risk / 100) * leverage) / entry_price, 6)\<close>, where
  \<open>balance\<close> is the USDT wallet balance, \<open>leverage\<close> the user's leverage as a float and
  \<open>entry_price\<close> the entry price of the signal on return. For a balance of 1000, a risk
  of 5, a leverage of 10 and an entry price of 50000 the risk amount is 50 and the quantity
  is the float 0.01.
\<close>

theorem order_quantity:
  "(place_order v signal lev risk = (Inr (Placed ok answer ps), signal', cs) \<longrightarrow>
      (\<exists>bal levf price.
           fetch_usdt_balance v = Inr bal
         \<and> float_of_int lev = Inr levf
         \<and> entry_price signal' = Some price
         \<and> Place_order ps \<in> set cs
         \<and> ps ''qty'' = Some (StrFloat
               (round6 (fdiv (fmul (fmul bal (fdiv risk (Fin 100))) levf) price)))))
   \<and> risk_amount_of (Fin 1000) (Fin 5) = Inr (Fin 50)
   \<and> quantity_of (Fin 50) 10 (Some (Fin 50000)) = float_of_str ''0.01''"
proof -
  have "\<exists>bal levf price.
           fetch_usdt_balance v = Inr bal
         \<and> float_of_int lev = Inr levf
         \<and> entry_price signal' = Some price
         \<and> Place_order ps \<in> set cs
         \<and> ps ''qty'' = Some (StrFloat
               (round6 (fdiv (fmul (fmul bal (fdiv risk (Fin 100))) levf) price)))"
    if run: "place_order v signal lev risk = (Inr (Placed ok answer ps), signal', cs)"
  proof -
    from run
    have t: "place_order_try v signal lev risk = (Inr (Placed ok answer ps), signal', cs)"
      by (auto simp: place_order_def split: prod.splits sum.splits)
    from place_order_try_result [OF t] have sub: "Place_order ps \<in> set cs" by simp
    from place_order_try_request [OF t sub] obtain bal levf price where
      "fetch_usdt_balance v = Inr bal" "float_of_int lev = Inr levf"
      "entry_price signal' = Some price"
      "ps = order_params_of signal'
              (round6 (fdiv (fmul (fmul bal (fdiv risk (Fin 100))) levf) price))"
      by blast
    with sub show ?thesis by (simp add: qty_order_params)
  qed
  then show ?thesis
    by (simp add: demo_risk_amount demo_quantity demo_literal)
qed

theorem order_quantity_witness:
  "fetch_usdt_balance demo_funded = Inr (Fin 1000)
   \<and> entry_price demo_filled = Some (Fin 50000)
   \<and> order_params_of demo_filled (fl (1 / 100)) ''qty'' = Some (StrFloat (fl (1 / 100)))"
proof -
  have "entry_price demo_filled = Some (Fin 50000)"
    by (simp add: demo_filled_def)
  with order_quantity [of demo_funded demo_signal 10 "Fin 5" True "JDict [(''retCode'', JInt 0)]"
      "order_params_of demo_filled (fl (1 / 100))" demo_filled] demo_run demo_balance
  show ?thesis by (simp add: qty_order_params)
qed

text \<open>
  C8. On return from \<open>place_order\<close> every field of the signal other than \<open>entry_price\<close>
  is as it was. \<open>entry_price\<close> changes only for a MARKET order, to the last price that the
  client reported; for a LIMIT order it is unchanged; and a MARKET order that reached the
  client carries that last price.
\<close>

theorem signal_frame:
  assumes "place_order v signal lev risk = (res, signal', cs)"
  shows "direction signal' = direction signal \<and> symbol signal' = symbol signal
       \<and> order_type signal' = order_type signal \<and> take_profit signal' = take_profit signal
       \<and> stop_loss signal' = stop_loss signal \<and> leverage signal' = leverage signal
       \<and> risk_percentage signal' = risk_percentage signal
       \<and> (entry_price signal' \<noteq> entry_price signal \<longrightarrow>
            order_type signal = ''MARKET''
            \<and> (\<exists>p. current_price_of (client_get_tickers v (symbol signal)) = Inr p
                    \<and> entry_price signal' = Some p))
       \<and> (order_type signal = ''LIMIT'' \<longrightarrow> entry_price signal' = entry_price signal)
       \<and> (order_type signal = ''MARKET'' \<and> (\<exists>ps. Place_order ps \<in> set cs) \<longrightarrow>
            (\<exists>p. current_price_of (client_get_tickers v (symbol signal)) = Inr p
                    \<and> entry_price signal' = Some p))"
proof -
  obtain r where t: "place_order_try v signal lev risk = (r, signal', cs)"
    using assms by (auto simp: place_order_unfold split: prod.splits)
  have frame: "direction signal' = direction signal \<and> symbol signal' = symbol signal
       \<and> order_type signal' = order_type signal \<and> take_profit signal' = take_profit signal
       \<and> stop_loss signal' = stop_loss signal \<and> leverage signal' = leverage signal
       \<and> risk_percentage signal' = risk_percentage signal"
    using place_order_try_signal [OF t] by auto
  have changed: "entry_price signal' \<noteq> entry_price signal \<longrightarrow>
            order_type signal = ''MARKET''
            \<and> (\<exists>p. current_price_of (client_get_tickers v (symbol signal)) = Inr p
                    \<and> entry_price signal' = Some p)"
    using place_order_try_signal [OF t] by auto
  have limit: "order_type signal = ''LIMIT'' \<longrightarrow> entry_price signal' = entry_price signal"
    using place_order_try_signal [OF t] by auto
  have market: "order_type signal = ''MARKET'' \<and> (\<exists>ps. Place_order ps \<in> set cs) \<longrightarrow>
            (\<exists>p. current_price_of (client_get_tickers v (symbol signal)) = Inr p
                    \<and> entry_price signal' = Some p)"
    using place_order_try_market [OF t] by blast
  from frame changed limit market show ?thesis by blast
qed

theorem signal_frame_witness:
  "order_type demo_signal = ''MARKET''
   \<and> entry_price demo_signal = None
   \<and> entry_price demo_filled = Some (Fin 50000)
   \<and> current_price_of (client_get_tickers demo_funded (symbol demo_signal)) = Inr (Fin 50000)
   \<and> direction demo_filled = direction demo_signal
   \<and> symbol demo_filled = symbol demo_signal
   \<and> take_profit demo_filled = take_profit demo_signal
   \<and> stop_loss demo_filled = stop_loss demo_signal"
proof -
  have a: "order_type demo_signal = ''MARKET''" "entry_price demo_signal = None"
    "entry_price demo_filled = Some (Fin 50000)"
    by (simp_all add: demo_signal_def demo_filled_def new_signal_def)
  have b: "current_price_of (client_get_tickers demo_funded (symbol demo_signal)) = Inr (Fin 50000)"
    using demo_price by (simp add: demo_funded_def demo_session_def)
  from signal_frame [OF demo_run] a b show ?thesis by simp
qed

text \<open>
  C2. When the balance snapshot is empty or has no \<open>result\<close>, \<open>place_order\<close> returns
  the failure "Could not fetch account balance"; when the USDT balance read from the coin
  list is zero, it returns the failure "No USDT balance found". In both cases no order is
  handed to the client.
\<close>

theorem balance_guard:
  assumes "place_order v signal lev risk = (res, signal', cs)"
    and "get_account_balance v = Inr balance"
  shows "(\<not> truthy balance \<or> contains_key ''result'' balance = Inr False \<longrightarrow>
            res = Inr (Failed (Exception ''Could not fetch account balance''))
            \<and> (\<forall>ps. Place_order ps \<notin> set cs))
       \<and> (check_balance balance = Inr () \<and> usdt_balance_of balance = Inr (Fin 0) \<longrightarrow>
            res = Inr (Failed (Exception ''No USDT balance found''))
            \<and> (\<forall>ps. Place_order ps \<notin> set cs))"
proof -
  have a: "\<not> truthy balance \<or> contains_key ''result'' balance = Inr False \<Longrightarrow>
     fetch_usdt_balance v = Inl (Exception ''Could not fetch account balance'')"
    using assms(2) by (auto simp: fetch_usdt_balance_def and_then_def check_balance_def)
  have b: "check_balance balance = Inr () \<and> usdt_balance_of balance = Inr (Fin 0) \<Longrightarrow>
     fetch_usdt_balance v = Inl (Exception ''No USDT balance found'')"
    using assms(2) by (auto simp: fetch_usdt_balance_def and_then_def eq_zero_def)
  show ?thesis
    using assms(1) place_order_try_balance_fails [of v _ signal lev risk] a b
    by (auto simp: place_order_def)
qed

theorem balance_guard_witness:
  "get_account_balance demo_empty = Inr (JDict [])
   \<and> \<not> truthy (JDict [])
   \<and> fst (place_order demo_empty demo_signal 10 (Fin 5))
       = Inr (Failed (Exception ''Could not fetch account balance''))
   \<and> (\<forall>ps. Place_order ps \<notin> set (snd (snd (place_order demo_empty demo_signal 10 (Fin 5)))))"
proof -
  have g: "get_account_balance demo_empty = Inr (JDict [])"
    by (simp add: get_account_balance_def demo_empty_def demo_session_def)
  have e: "place_order demo_empty demo_signal 10 (Fin 5) =
      (fst (place_order demo_empty demo_signal 10 (Fin 5)),
       fst (snd (place_order demo_empty demo_signal 10 (Fin 5))),
       snd (snd (place_order demo_empty demo_signal 10 (Fin 5))))"
    by simp
  from balance_guard [OF e g] g show ?thesis by simp
qed

text \<open>
  C10. When the snapshot has a coin list and no coin of the list is named \<open>USDT\<close>,
  \<open>place_order\<close> returns the failure "No USDT balance found", as for a zero balance, and
  no order is handed to the client.
\<close>

theorem missing_usdt_is_zero_balance:
  assumes "place_order v signal lev risk = (res, signal', cs)"
    and "get_account_balance v = Inr balance"
    and "coin_list balance = Inr coins"
    and "\<forall>c \<in> set coins. \<exists>name. getitem ''coin'' c = Inr name \<and> name \<noteq> JStr ''USDT''"
  shows "res = Inr (Failed (Exception ''No USDT balance found''))
       \<and> (\<forall>ps. Place_order ps \<notin> set cs)"
proof -
  have "usdt_balance_of balance = Inr (Fin 0)"
    using assms(3) find_usdt_none [OF assms(4)] by (simp add: usdt_balance_of_def and_then_def)
  with coin_list_check [OF assms(3)] assms(2)
  have "fetch_usdt_balance v = Inl (Exception ''No USDT balance found'')"
    by (simp add: fetch_usdt_balance_def and_then_def eq_zero_def)
  from place_order_try_balance_fails [OF this, of signal lev risk] assms(1)
  show ?thesis by (auto simp: place_order_def)
qed

theorem missing_usdt_is_zero_balance_witness:
  "coin_list (demo_wallet [demo_coin ''BTC'' ''1'', demo_coin ''ETH'' ''2''])
       = Inr [demo_coin ''BTC'' ''1'', demo_coin ''ETH'' ''2'']
   \<and> fst (place_order demo_no_usdt demo_signal 10 (Fin 5))
       = Inr (Failed (Exception ''No USDT balance found''))
   \<and> (\<forall>ps. Place_order ps \<notin> set (snd (snd (place_order demo_no_usdt demo_signal 10 (Fin 5)))))"
proof -
  have g: "get_account_balance demo_no_usdt
      = Inr (demo_wallet [demo_coin ''BTC'' ''1'', demo_coin ''ETH'' ''2''])"
    by (simp add: get_account_balance_def demo_no_usdt_def demo_session_def)
  have n: "\<forall>c \<in> set [demo_coin ''BTC'' ''1'', demo_coin ''ETH'' ''2''].
      \<exists>name. getitem ''coin'' c = Inr name \<and> name \<noteq> JStr ''USDT''"
    by (simp add: demo_coin_def)
  have e: "place_order demo_no_usdt demo_signal 10 (Fin 5) =
      (fst (place_order demo_no_usdt demo_signal 10 (Fin 5)),
       fst (snd (place_order demo_no_usdt demo_signal 10 (Fin 5))),
       snd (snd (place_order demo_no_usdt demo_signal 10 (Fin 5))))"
    by simp
  from missing_usdt_is_zero_balance [OF e g demo_coins(1) n] demo_coins(1)
  show ?thesis by simp
qed

end
